theory Spec2Isabelle
  imports Main "HOL-Library.Word"
begin

section \<open>Strings and opaque values\<close>

text \<open>
  A TypeScript \<^verbatim>\<open>string\<close> is a sequence of UTF-16 code units. The only operation of the
  modelled code that inspects characters is \<^verbatim>\<open>String.prototype.trim\<close>; everything else
  passes strings along or compares them with literals. A source literal \<^verbatim>\<open>'abc'\<close> is
  written \<open>lit ''abc''\<close>.
\<close>

type_synonym js_string = "16 word list"

definition lit :: "string \<Rightarrow> js_string" where
  "lit s = map (\<lambda>c. of_nat (of_char c)) s"

text \<open>
  \<^verbatim>\<open>number\<close> (an IEEE-754 double) and \<^verbatim>\<open>Date\<close> are carried around by the modelled
  code and never computed with, so they stay opaque.
\<close>

typedecl number
typedecl Date

section \<open>lib/types.ts\<close>

subsection \<open>Project types\<close>

record ProjectStats =
  passing :: number
  in_progress :: number
  total :: number
  percentage :: number

subsection \<open>Agent types\<close>

text \<open>\<^verbatim>\<open>export type AgentStatus = 'stopped' | 'running' | 'paused' | 'crashed'\<close>\<close>

datatype AgentStatus = Stopped | Running | Paused | Crashed

text \<open>The string a value of the union is at run time.\<close>

fun AgentStatus_str :: "AgentStatus \<Rightarrow> string" where
  "AgentStatus_str Stopped = ''stopped''"
| "AgentStatus_str Running = ''running''"
| "AgentStatus_str Paused = ''paused''"
| "AgentStatus_str Crashed = ''crashed''"

subsection \<open>WebSocket message types\<close>

text \<open>
  The field \<^verbatim>\<open>type: 'progress'\<close> has a literal type with a single inhabitant; it is the
  one-constructor type \<open>progress_tag\<close>, and \<open>tag_str\<close> is the string it stands for.
\<close>

datatype progress_tag = Progress

fun progress_tag_str :: "progress_tag \<Rightarrow> string" where
  "progress_tag_str Progress = ''progress''"

record WSProgressMessage =
  type :: progress_tag
  passing :: number
  in_progress :: number
  total :: number
  percentage :: number

subsection \<open>Spec chat types\<close>

record SpecQuestionOption =
  label :: js_string
  description :: js_string

record SpecQuestion =
  question :: js_string
  header :: js_string
  options :: "SpecQuestionOption list"
  multiSelect :: bool

text \<open>
  \<^verbatim>\<open>SpecChatServerMessage\<close> is the union of eight interfaces, each with its own literal
  \<^verbatim>\<open>type\<close> field. One constructor per interface, named after it, with that
  interface's remaining fields; an optional field (\<^verbatim>\<open>tool_id?\<close>) is an \<open>option\<close>.
\<close>

datatype SpecChatServerMessage =
    SpecChatTextMessage js_string
  | SpecChatQuestionMessage "SpecQuestion list" "js_string option"
  | SpecChatCompleteMessage js_string
  | SpecChatFileWrittenMessage js_string
  | SpecChatSessionCompleteMessage
  | SpecChatErrorMessage js_string
  | SpecChatPongMessage
  | SpecChatResponseDoneMessage

text \<open>The \<^verbatim>\<open>type\<close> field (the discriminant) declared by each interface.\<close>

fun msg_type :: "SpecChatServerMessage \<Rightarrow> string" where
  "msg_type (SpecChatTextMessage content) = ''text''"
| "msg_type (SpecChatQuestionMessage questions tool_id) = ''question''"
| "msg_type (SpecChatCompleteMessage path) = ''spec_complete''"
| "msg_type (SpecChatFileWrittenMessage path) = ''file_written''"
| "msg_type SpecChatSessionCompleteMessage = ''complete''"
| "msg_type (SpecChatErrorMessage content) = ''error''"
| "msg_type SpecChatPongMessage = ''pong''"
| "msg_type SpecChatResponseDoneMessage = ''response_done''"

text \<open>The \<^verbatim>\<open>path\<close> field, for the two interfaces that declare one.\<close>

fun msg_path :: "SpecChatServerMessage \<Rightarrow> js_string option" where
  "msg_path (SpecChatCompleteMessage path) = Some path"
| "msg_path (SpecChatFileWrittenMessage path) = Some path"
| "msg_path _ = None"

datatype role = User | Assistant | System

record ChatMessage =
  id :: js_string
  role :: role
  content :: js_string
  timestamp :: Date
  questions :: "SpecQuestion list option"
  isStreaming :: "bool option"

text \<open>
  Dropping the discriminant of a progress message, and adding it to a stats object: the
  two directions of the structural correspondence between the interfaces.
\<close>

definition WSProgressMessage_stats :: "WSProgressMessage \<Rightarrow> ProjectStats" where
  "WSProgressMessage_stats m =
     \<lparr>ProjectStats.passing = WSProgressMessage.passing m,
      ProjectStats.in_progress = WSProgressMessage.in_progress m,
      ProjectStats.total = WSProgressMessage.total m,
      ProjectStats.percentage = WSProgressMessage.percentage m\<rparr>"

definition ProjectStats_progress :: "ProjectStats \<Rightarrow> WSProgressMessage" where
  "ProjectStats_progress s =
     \<lparr>type = Progress,
      WSProgressMessage.passing = ProjectStats.passing s,
      WSProgressMessage.in_progress = ProjectStats.in_progress s,
      WSProgressMessage.total = ProjectStats.total s,
      WSProgressMessage.percentage = ProjectStats.percentage s\<rparr>"

section \<open>The AgentControl component\<close>

text \<open>
  The component and its helper \<^verbatim>\<open>StatusIndicator\<close> stand in the second part of
  \<^verbatim>\<open>src/ui/src/lib/types.ts\<close>. A render is a function from the props, the values the
  hooks return and the component's own state to the tree it returns; styling
  (\<^verbatim>\<open>className\<close>, icon sizes) is left out. A handler is the list of calls it makes, in
  order; it closes over the state of the render that created it.
\<close>

subsection \<open>Calls a handler can make\<close>

text \<open>The argument of \<^verbatim>\<open>startAgent.mutate\<close>.\<close>

record start_payload =
  yoloMode :: bool
  model :: js_string

text \<open>
  The four mutation objects (\<^verbatim>\<open>startAgent\<close>, \<^verbatim>\<open>stopAgent\<close>, \<^verbatim>\<open>pauseAgent\<close>,
  \<^verbatim>\<open>resumeAgent\<close>), and a call \<^verbatim>\<open>x.mutate(payload)\<close> or \<^verbatim>\<open>x.mutate()\<close>
  (\<open>None\<close>: no argument).
\<close>

datatype mutation = StartAgent | StopAgent | PauseAgent | ResumeAgent

datatype agent_command =
    Mutate mutation "start_payload option"
  | SetYoloEnabled bool
  | SetModel js_string

subsection \<open>Props, hook results and state\<close>

text \<open>
  \<^verbatim>\<open>yoloMode?: boolean\<close> is optional with default \<^verbatim>\<open>false\<close>; \<^verbatim>\<open>model?: string | null\<close>,
  destructured as \<^verbatim>\<open>currentModel\<close>, is only tested for truthiness and shown, so
  \<open>None\<close> stands for both \<^verbatim>\<open>undefined\<close> and \<^verbatim>\<open>null\<close>.
\<close>

record AgentControlProps =
  projectName :: js_string
  status :: AgentStatus
  yoloMode :: "bool option"
  currentModel :: "js_string option"

record AgentControlHooks =
  startAgent_isPending :: bool
  stopAgent_isPending :: bool
  pauseAgent_isPending :: bool
  resumeAgent_isPending :: bool

record AgentControlState =
  yoloEnabled :: bool
  model :: js_string

text \<open>\<^verbatim>\<open>useState(false)\<close> and \<^verbatim>\<open>useState('claude-3-opus-20240229')\<close>.\<close>

definition AgentControl_init :: AgentControlState where
  "AgentControl_init =
     \<lparr>yoloEnabled = False, AgentControlState.model = lit ''claude-3-opus-20240229''\<rparr>"

text \<open>The effect of the two state setters; a mutation does not touch the local state.\<close>

fun AgentControl_set :: "AgentControlState \<Rightarrow> agent_command \<Rightarrow> AgentControlState" where
  "AgentControl_set st (SetYoloEnabled b) = st\<lparr>yoloEnabled := b\<rparr>"
| "AgentControl_set st (SetModel m) = st\<lparr>AgentControlState.model := m\<rparr>"
| "AgentControl_set st (Mutate x payload) = st"

subsection \<open>Handlers\<close>

text \<open>The constant \<^verbatim>\<open>isLoading\<close> of this component.\<close>

definition AgentControl_isLoading :: "AgentControlHooks \<Rightarrow> bool" where
  "AgentControl_isLoading h =
     (startAgent_isPending h \<or> stopAgent_isPending h
      \<or> pauseAgent_isPending h \<or> resumeAgent_isPending h)"

definition handleStart :: "AgentControlState \<Rightarrow> agent_command list" where
  "handleStart st =
     [Mutate StartAgent
        (Some \<lparr>start_payload.yoloMode = yoloEnabled st,
               start_payload.model = AgentControlState.model st\<rparr>)]"

definition handleStop :: "agent_command list" where
  "handleStop = [Mutate StopAgent None]"

definition handlePause :: "agent_command list" where
  "handlePause = [Mutate PauseAgent None]"

definition handleResume :: "agent_command list" where
  "handleResume = [Mutate ResumeAgent None]"

definition models :: "js_string list" where
  "models =
     [lit ''claude-3-opus-20240229'',
      lit ''claude-3-sonnet-20240229'',
      lit ''claude-3-haiku-20240307'',
      lit ''gpt-4-turbo-preview'',
      lit ''gpt-3.5-turbo'',
      lit ''gemini-1.5-pro'',
      lit ''gemini-1.5-flash'',
      lit ''gemini-1.5-pro-latest'']"

subsection \<open>StatusIndicator\<close>

record status_config =
  color :: js_string
  label :: js_string
  pulse :: bool

text \<open>The object literal \<^verbatim>\<open>statusConfig\<close>: its property names and their values, in order.\<close>

definition statusConfig :: "(string \<times> status_config) list" where
  "statusConfig =
     [(''stopped'',
         \<lparr>color = lit ''var(--color-neo-text-secondary)'', label = lit ''Stopped'', pulse = False\<rparr>),
      (''running'',
         \<lparr>color = lit ''var(--color-neo-done)'', label = lit ''Running'', pulse = True\<rparr>),
      (''paused'',
         \<lparr>color = lit ''var(--color-neo-pending)'', label = lit ''Paused'', pulse = False\<rparr>),
      (''crashed'',
         \<lparr>color = lit ''var(--color-neo-danger)'', label = lit ''Crashed'', pulse = True\<rparr>)]"

text \<open>
  What the indicator shows: whether the dot has the class \<^verbatim>\<open>animate-pulse\<close>, the dot's
  background colour, and the colour and text of the label.
\<close>

record indicator_view =
  dot_pulse :: bool
  dot_color :: js_string
  label_color :: js_string
  label_text :: js_string

datatype js_error = TypeError

text \<open>
  \<^verbatim>\<open>const config = statusConfig[status]\<close> is \<^verbatim>\<open>undefined\<close> for a name the object does
  not have, and reading \<^verbatim>\<open>config.pulse\<close> then throws a TypeError.
\<close>

definition StatusIndicator :: "AgentStatus \<Rightarrow> js_error + indicator_view" where
  "StatusIndicator st =
     (case map_of statusConfig (AgentStatus_str st) of
        None \<Rightarrow> Inl TypeError
      | Some config \<Rightarrow>
          Inr \<lparr>dot_pulse = pulse config, dot_color = color config,
               label_color = color config, label_text = label config\<rparr>)"

subsection \<open>AgentControl\<close>

datatype icon = Play | Pause | Square | Loader2 | Zap

text \<open>
  The children of the "Control Buttons" element: a \<^verbatim>\<open>select\<close> with its value, options,
  \<^verbatim>\<open>disabled\<close> and \<^verbatim>\<open>onChange\<close> (applied to \<^verbatim>\<open>e.target.value\<close>), or a \<^verbatim>\<open>button\<close>
  with its title, \<^verbatim>\<open>disabled\<close>, icon and \<^verbatim>\<open>onClick\<close>.
\<close>

datatype control =
    Select js_string "js_string list" bool "js_string \<Rightarrow> agent_command list"
  | Button js_string bool icon "agent_command list"

record AgentControlView =
  status_indicator :: "js_error + indicator_view"
  yolo_indicator :: bool
  model_indicator :: "js_string option"
  control_buttons :: "control list"

definition AgentControl ::
  "AgentControlProps \<Rightarrow> AgentControlHooks \<Rightarrow> AgentControlState \<Rightarrow> AgentControlView" where
  "AgentControl props hooks st =
     (let yolo = (case AgentControlProps.yoloMode props of None \<Rightarrow> False | Some b \<Rightarrow> b);
          loading = AgentControl_isLoading hooks;
          isStopped = (status props = Stopped \<or> status props = Crashed)
      in
      \<lparr>status_indicator = StatusIndicator (status props),
       yolo_indicator = ((status props = Running \<or> status props = Paused) \<and> yolo),
       model_indicator =
         (if status props = Running \<or> status props = Paused
          then (case currentModel props of
                  None \<Rightarrow> None
                | Some m \<Rightarrow> if m = [] then None else Some m)
          else None),
       control_buttons =
         (if isStopped then
            [Select (AgentControlState.model st) models (\<not> isStopped) (\<lambda>v. [SetModel v]),
             Button (lit ''YOLO Mode: Skip testing for rapid prototyping'') False Zap
               [SetYoloEnabled (\<not> yoloEnabled st)],
             Button (if yoloEnabled st then lit ''Start Agent (YOLO Mode)'' else lit ''Start Agent'')
               loading (if loading then Loader2 else Play) (handleStart st)]
          else if status props = Running then
            [Button (lit ''Pause Agent'') loading (if loading then Loader2 else Pause) handlePause,
             Button (lit ''Stop Agent'') loading Square handleStop]
          else if status props = Paused then
            [Button (lit ''Resume Agent'') loading (if loading then Loader2 else Play) handleResume,
             Button (lit ''Stop Agent'') loading Square handleStop]
          else [])\<rparr>)"

text \<open>
  What the user can set off from a rendered control: every call its handler makes (for
  the select, after choosing the value \<open>v\<close>).
\<close>

fun control_calls :: "js_string \<Rightarrow> control \<Rightarrow> agent_command list" where
  "control_calls v (Select val opts dis onChange) = onChange v"
| "control_calls v (Button title dis ic onClick) = onClick"

text \<open>The mutations a list of calls starts.\<close>

fun mutations_of :: "agent_command list \<Rightarrow> mutation list" where
  "mutations_of [] = []"
| "mutations_of (Mutate x payload # cs) = x # mutations_of cs"
| "mutations_of (c # cs) = mutations_of cs"

section \<open>The SpecCreationChat component\<close>

text \<open>
  \<^verbatim>\<open>src/ui/src/components/SpecCreationChat.tsx\<close>. The hook \<^verbatim>\<open>useSpecChat\<close> is not part
  of the modelled sources: the component sees the values the hook returns at a render and
  calls the functions it hands out, which appear here as calls of a handler.
\<close>

subsection \<open>String.prototype.trim\<close>

text \<open>
  ECMAScript's \<^verbatim>\<open>trim\<close> removes leading and trailing white space and line terminators:
  TAB, LF, VT, FF, CR, SPACE, NBSP, U+1680, U+2000 to U+200A, LS, PS, U+202F, U+205F,
  U+3000 and U+FEFF.
\<close>

definition is_white_space :: "16 word \<Rightarrow> bool" where
  "is_white_space c =
     (c \<in> set [0x9, 0xA, 0xB, 0xC, 0xD, 0x20, 0xA0, 0x1680, 0x2028, 0x2029,
                0x202F, 0x205F, 0x3000, 0xFEFF]
      \<or> (0x2000 \<le> c \<and> c \<le> 0x200A))"

definition trim :: "js_string \<Rightarrow> js_string" where
  "trim s = rev (dropWhile is_white_space (rev (dropWhile is_white_space s)))"

subsection \<open>Calls a handler or an effect can make\<close>

text \<open>\<^verbatim>\<open>Record<string, string | string[]>\<close>, as its entries.\<close>

type_synonym answers = "(js_string \<times> (js_string + js_string list)) list"

datatype chat_command =
    Start
  | Disconnect
  | SendMessage js_string
  | SendAnswer answers
  | SetInput js_string
  | SetError "js_string option"
  | OnComplete js_string
  | OnCancel
  | PreventDefault
  | ScrollIntoView
  | FocusInput

subsection \<open>What a render sees\<close>

text \<open>
  The prop \<^verbatim>\<open>projectName\<close>, the state cells \<^verbatim>\<open>input\<close> and \<^verbatim>\<open>error\<close>, and the
  values returned by \<^verbatim>\<open>useSpecChat\<close>. The type of \<^verbatim>\<open>connectionStatus\<close> is declared
  with the hook; the component compares it with string literals and has a default branch,
  so it is a string here. \<^verbatim>\<open>currentQuestions\<close> is tested for truthiness and for its
  length, so it is an array or \<^verbatim>\<open>null\<close>; an empty array is truthy.
\<close>

record SpecCreationChatState =
  projectName :: js_string
  input :: js_string
  error :: "js_string option"
  messages :: "ChatMessage list"
  isLoading :: bool
  isComplete :: bool
  connectionStatus :: js_string
  currentQuestions :: "SpecQuestion list option"

text \<open>\<^verbatim>\<open>useState('')\<close> and \<^verbatim>\<open>useState<string | null>(null)\<close>: what the setters do.\<close>

fun SpecCreationChat_set :: "SpecCreationChatState \<Rightarrow> chat_command \<Rightarrow> SpecCreationChatState" where
  "SpecCreationChat_set st (SetInput v) = st\<lparr>input := v\<rparr>"
| "SpecCreationChat_set st (SetError e) = st\<lparr>error := e\<rparr>"
| "SpecCreationChat_set st c = st"

text \<open>The state cells after a handler has run.\<close>

definition after :: "SpecCreationChatState \<Rightarrow> chat_command list \<Rightarrow> SpecCreationChatState" where
  "after st cs = foldl SpecCreationChat_set st cs"

subsection \<open>Handlers\<close>

text \<open>\<^verbatim>\<open>onError: (err) => setError(err)\<close>, handed to the hook.\<close>

definition onError :: "js_string \<Rightarrow> chat_command list" where
  "onError err = [SetError (Some err)]"

text \<open>An empty string is falsy, so \<^verbatim>\<open>!trimmed\<close> holds exactly for the empty string.\<close>

definition handleSendMessage :: "SpecCreationChatState \<Rightarrow> chat_command list" where
  "handleSendMessage st =
     (let trimmed = trim (input st)
      in if trimmed = [] \<or> isLoading st then []
         else [SendMessage trimmed, SetInput []])"

record key_event =
  key :: js_string
  shiftKey :: bool

definition handleKeyDown :: "SpecCreationChatState \<Rightarrow> key_event \<Rightarrow> chat_command list" where
  "handleKeyDown st e =
     (if key e = lit ''Enter'' \<and> \<not> shiftKey e
      then PreventDefault # handleSendMessage st
      else [])"

definition handleAnswerSubmit :: "answers \<Rightarrow> chat_command list" where
  "handleAnswerSubmit a = [SendAnswer a]"

subsection \<open>Effects\<close>

text \<open>
  A \<^verbatim>\<open>useEffect\<close> call: the dependency array, the calls of the effect's body and the
  calls of the cleanup function it returns (none when it returns nothing).
\<close>

datatype dep = Dep_messages | Dep_currentQuestions | Dep_isLoading

record effect =
  deps :: "dep list"
  body :: "chat_command list"
  cleanup :: "chat_command list"

text \<open>
  The three effects of the component, in source order. \<^verbatim>\<open>inputRef.current\<close> is set
  while the input element is mounted, which is while \<^verbatim>\<open>isComplete\<close> is false.
\<close>

definition effects :: "SpecCreationChatState \<Rightarrow> effect list" where
  "effects st =
     [\<lparr>deps = [], body = [Start], cleanup = [Disconnect]\<rparr>,
      \<lparr>deps = [Dep_messages, Dep_currentQuestions, Dep_isLoading],
        body = [ScrollIntoView], cleanup = []\<rparr>,
      \<lparr>deps = [Dep_isLoading, Dep_currentQuestions],
        body = (if \<not> isLoading st \<and> currentQuestions st = None \<and> \<not> isComplete st
                then [FocusInput] else []),
        cleanup = []\<rparr>]"

subsection \<open>The rendered tree\<close>

datatype chat_icon = Wifi | WifiOff

text \<open>The icon, whether it pulses, and the text of the connection indicator.\<close>

definition ConnectionIndicator :: "js_string \<Rightarrow> chat_icon \<times> bool \<times> js_string" where
  "ConnectionIndicator cs =
     (if cs = lit ''connected'' then (Wifi, False, lit ''Connected'')
      else if cs = lit ''connecting'' then (Wifi, True, lit ''Connecting...'')
      else if cs = lit ''error'' then (WifiOff, False, lit ''Error'')
      else (WifiOff, False, lit ''Disconnected''))"

record header_view =
  title :: js_string
  connection_indicator :: "chat_icon \<times> bool \<times> js_string"
  complete_badge :: bool
  cancel_onClick :: "chat_command list"

record error_banner_view =
  error_text :: js_string
  dismiss_onClick :: "chat_command list"

text \<open>
  The "Starting Spec Creation" card; \<open>retry_onClick\<close> is the \<^verbatim>\<open>onClick\<close> of the
  "Retry Connection" button when the card has one.
\<close>

record starting_card_view =
  retry_onClick :: "chat_command list option"

record question_options_view =
  qo_questions :: "SpecQuestion list"
  qo_onSubmit :: "answers \<Rightarrow> chat_command list"
  qo_disabled :: bool

record messages_area_view =
  starting_card :: "starting_card_view option"
  chat_messages :: "ChatMessage list"
  question_options :: "question_options_view option"
  typing_indicator :: bool

record input_area_view =
  input_value :: js_string
  input_placeholder :: js_string
  input_disabled :: bool
  input_onChange :: "js_string \<Rightarrow> chat_command list"
  input_onKeyDown :: "key_event \<Rightarrow> chat_command list"
  send_disabled :: bool
  send_onClick :: "chat_command list"

record completion_footer_view =
  continue_onClick :: "chat_command list"

text \<open>
  The children of the root element. A JSX child \<^verbatim>\<open>{cond && <X/>}\<close> is \<open>Some\<close> when
  the condition is truthy and \<open>None\<close> otherwise.
\<close>

record SpecCreationChatView =
  header_bar :: header_view
  error_banner :: "error_banner_view option"
  messages_area :: messages_area_view
  input_area :: "input_area_view option"
  completion_footer :: "completion_footer_view option"

definition SpecCreationChat :: "SpecCreationChatState \<Rightarrow> SpecCreationChatView" where
  "SpecCreationChat st =
     \<lparr>header_bar =
        \<lparr>title = lit ''Create Spec: '' @ SpecCreationChatState.projectName st,
         connection_indicator = ConnectionIndicator (connectionStatus st),
         complete_badge = isComplete st,
         cancel_onClick = [OnCancel]\<rparr>,
      error_banner =
        (case error st of
           None \<Rightarrow> None
         | Some e \<Rightarrow>
             if e = [] then None
             else Some \<lparr>error_text = e, dismiss_onClick = [SetError None]\<rparr>),
      messages_area =
        \<lparr>starting_card =
           (if length (messages st) = 0 \<and> \<not> isLoading st
            then Some \<lparr>retry_onClick =
                   (if connectionStatus st = lit ''error'' then Some [Start] else None)\<rparr>
            else None),
         chat_messages = messages st,
         question_options =
           (case currentQuestions st of
              None \<Rightarrow> None
            | Some qs \<Rightarrow>
                if length qs > 0
                then Some \<lparr>qo_questions = qs, qo_onSubmit = handleAnswerSubmit,
                           qo_disabled = isLoading st\<rparr>
                else None),
         typing_indicator = (isLoading st \<and> currentQuestions st = None)\<rparr>,
      input_area =
        (if \<not> isComplete st
         then Some
           \<lparr>input_value = input st,
            input_placeholder =
              (if currentQuestions st \<noteq> None then lit ''Or type a custom response...''
               else lit ''Type your response...''),
            input_disabled =
              ((isLoading st \<and> currentQuestions st = None)
               \<or> connectionStatus st \<noteq> lit ''connected''),
            input_onChange = (\<lambda>v. [SetInput v]),
            input_onKeyDown = handleKeyDown st,
            send_disabled =
              (trim (input st) = []
               \<or> (isLoading st \<and> currentQuestions st = None)
               \<or> connectionStatus st \<noteq> lit ''connected''),
            send_onClick = handleSendMessage st\<rparr>
         else None),
      completion_footer =
        (if isComplete st then Some \<lparr>continue_onClick = [OnComplete []]\<rparr> else None)\<rparr>"

subsection \<open>User gestures\<close>

text \<open>
  The browser hands a gesture to the handler of the element it is made on. An element
  that is not rendered has no handler, and a disabled \<^verbatim>\<open>input\<close> or \<^verbatim>\<open>button\<close>
  receives neither mouse nor keyboard events. \<^verbatim>\<open>QuestionOptions\<close> is not part of the
  modelled sources: a submission calls its \<^verbatim>\<open>onSubmit\<close> whenever the element is
  rendered, which takes no advantage of what it may do with its \<^verbatim>\<open>disabled\<close> prop.
\<close>

datatype ui_event =
    ClickCancel
  | ClickDismissError
  | ClickRetry
  | SubmitAnswers answers
  | ChangeInput js_string
  | KeyDownInput key_event
  | ClickSend
  | ClickContinue

fun dispatch :: "SpecCreationChatView \<Rightarrow> ui_event \<Rightarrow> chat_command list" where
  "dispatch v ClickCancel = cancel_onClick (header_bar v)"
| "dispatch v ClickDismissError =
     (case error_banner v of None \<Rightarrow> [] | Some b \<Rightarrow> dismiss_onClick b)"
| "dispatch v ClickRetry =
     (case starting_card (messages_area v) of
        None \<Rightarrow> []
      | Some sc \<Rightarrow> (case retry_onClick sc of None \<Rightarrow> [] | Some h \<Rightarrow> h))"
| "dispatch v (SubmitAnswers a) =
     (case question_options (messages_area v) of None \<Rightarrow> [] | Some q \<Rightarrow> qo_onSubmit q a)"
| "dispatch v (ChangeInput x) =
     (case input_area v of
        None \<Rightarrow> []
      | Some a \<Rightarrow> if input_disabled a then [] else input_onChange a x)"
| "dispatch v (KeyDownInput e) =
     (case input_area v of
        None \<Rightarrow> []
      | Some a \<Rightarrow> if input_disabled a then [] else input_onKeyDown a e)"
| "dispatch v ClickSend =
     (case input_area v of
        None \<Rightarrow> []
      | Some a \<Rightarrow> if send_disabled a then [] else send_onClick a)"
| "dispatch v ClickContinue =
     (case completion_footer v of None \<Rightarrow> [] | Some f \<Rightarrow> continue_onClick f)"

subsection \<open>The life of a mounted component\<close>

text \<open>
  React's rules for effects. After the first render (the mount) the body of every effect
  runs, in order. After a later render, an effect runs again when one of its dependencies
  has changed identity since the previous render, so an effect with an empty dependency
  array never runs again; the cleanups of the effects that run again are called first
  (each from the run it belongs to), then their bodies. At unmount the cleanup of the last
  run of every effect is called. Which dependencies changed identity is decided outside
  the component, so a later render comes with the list of those that did. The double
  mount of development-only strict mode is not part of this.
\<close>

datatype rerender = Rerender SpecCreationChatState "dep list"

definition reruns :: "dep list \<Rightarrow> effect \<Rightarrow> bool" where
  "reruns changed e = (set (deps e) \<inter> set changed \<noteq> {})"

fun rerenders :: "effect list \<Rightarrow> rerender list \<Rightarrow> effect list \<times> chat_command list" where
  "rerenders live [] = (live, [])"
| "rerenders live (Rerender st changed # rs) =
     (let cur = effects st;
          again = map (reruns changed) cur;
          cleanups = concat (map (\<lambda>(p, r). if r then cleanup p else []) (zip live again));
          bodies = concat (map (\<lambda>(c, r). if r then body c else []) (zip cur again));
          live' = map (\<lambda>((p, c), r). if r then c else p) (zip (zip live cur) again);
          (final, calls) = rerenders live' rs
      in (final, cleanups @ bodies @ calls))"

definition mount_calls :: "SpecCreationChatState \<Rightarrow> chat_command list" where
  "mount_calls st0 = concat (map body (effects st0))"

definition unmount_calls :: "SpecCreationChatState \<Rightarrow> rerender list \<Rightarrow> chat_command list" where
  "unmount_calls st0 rs = concat (map cleanup (fst (rerenders (effects st0) rs)))"

text \<open>Every call the effects make from mount to unmount.\<close>

definition lifetime :: "SpecCreationChatState \<Rightarrow> rerender list \<Rightarrow> chat_command list" where
  "lifetime st0 rs =
     mount_calls st0 @ snd (rerenders (effects st0) rs) @ unmount_calls st0 rs"

subsection \<open>An example state\<close>

text \<open>
  A render of a connected, idle session with the text " hi " typed into the input; the
  concrete instances below are variations of it.
\<close>

definition chat0 :: SpecCreationChatState where
  "chat0 = \<lparr>SpecCreationChatState.projectName = lit ''demo'', input = lit '' hi '', error = None,
     messages = [], isLoading = False, isComplete = False,
     connectionStatus = lit ''connected'', currentQuestions = None\<rparr>"

text \<open>A batch with one question, and an answer to it.\<close>

definition question0 :: SpecQuestion where
  "question0 =
     \<lparr>question = lit ''Which platform?'', header = lit ''Platform'',
      options =
        [\<lparr>SpecQuestionOption.label = lit ''Web'',
          SpecQuestionOption.description = lit ''A browser application''\<rparr>],
      multiSelect = False\<rparr>"

definition answers0 :: answers where
  "answers0 = [(lit ''Which platform?'', Inl (lit ''Web''))]"

section \<open>Theorems about lib/types.ts\<close>

lemma progress_tag_unique: "(t :: progress_tag) = Progress"
  by (cases t) simp

text \<open>
  Claim C1. Every \<^verbatim>\<open>SpecChatServerMessage\<close> carries exactly one of the eight
  discriminants 'text', 'question', 'spec_complete', 'file_written', 'complete', 'error',
  'pong', 'response_done', and a string is the discriminant of some message of the union
  only if it is one of these eight. Text chunks, batches of multiple-choice questions and
  the completion and error signals are among the variants.
\<close>

theorem SpecChatServerMessage_closed_union:
  "length (filter (\<lambda>t. msg_type m = t)
      [''text'', ''question'', ''spec_complete'', ''file_written'',
       ''complete'', ''error'', ''pong'', ''response_done'']) = 1
   \<and> ((\<exists>m'. msg_type m' = t) =
        (t \<in> {''text'', ''question'', ''spec_complete'', ''file_written'',
              ''complete'', ''error'', ''pong'', ''response_done''}))
   \<and> msg_type (SpecChatTextMessage c) = ''text''
   \<and> msg_type (SpecChatQuestionMessage qs tid) = ''question''
   \<and> msg_type (SpecChatCompleteMessage p) = ''spec_complete''
   \<and> msg_type SpecChatSessionCompleteMessage = ''complete''
   \<and> msg_type (SpecChatErrorMessage c) = ''error''"
proof -
  have one: "length (filter (\<lambda>t. msg_type m = t)
      [''text'', ''question'', ''spec_complete'', ''file_written'',
       ''complete'', ''error'', ''pong'', ''response_done'']) = 1"
    by (cases m) simp_all
  have only: "t \<in> {''text'', ''question'', ''spec_complete'', ''file_written'',
              ''complete'', ''error'', ''pong'', ''response_done''}"
    if "msg_type m' = t" for m'
    using that by (cases m') simp_all
  have every: "\<exists>m'. msg_type m' = t"
    if "t \<in> {''text'', ''question'', ''spec_complete'', ''file_written'',
              ''complete'', ''error'', ''pong'', ''response_done''}"
  proof -
    have "t \<in> msg_type ` {SpecChatTextMessage [], SpecChatQuestionMessage [] None,
        SpecChatCompleteMessage [], SpecChatFileWrittenMessage [],
        SpecChatSessionCompleteMessage, SpecChatErrorMessage [],
        SpecChatPongMessage, SpecChatResponseDoneMessage}"
      using that by simp
    then show ?thesis by blast
  qed
  from one only every show ?thesis
    by (intro conjI iffI) (blast, blast, simp_all)
qed

text \<open>
  Claim C6. \<^verbatim>\<open>WSProgressMessage\<close> declares the four fields of \<^verbatim>\<open>ProjectStats\<close>
  (passing, in_progress, total, percentage), each of type \<^verbatim>\<open>number\<close>, and besides
  them only its discriminant, which has a single value. So removing the discriminant
  gives a \<^verbatim>\<open>ProjectStats\<close> with the same four values, adding it gives a
  \<^verbatim>\<open>WSProgressMessage\<close> with the same four values, and the two conversions are
  inverse to each other.
\<close>

theorem WSProgressMessage_mirrors_ProjectStats:
  "WSProgressMessage_stats (ProjectStats_progress s) = s
   \<and> ProjectStats_progress (WSProgressMessage_stats m) = m
   \<and> progress_tag_str (type m) = ''progress''
   \<and> ProjectStats.passing (WSProgressMessage_stats m) = WSProgressMessage.passing m
   \<and> ProjectStats.in_progress (WSProgressMessage_stats m) = WSProgressMessage.in_progress m
   \<and> ProjectStats.total (WSProgressMessage_stats m) = WSProgressMessage.total m
   \<and> ProjectStats.percentage (WSProgressMessage_stats m) = WSProgressMessage.percentage m
   \<and> WSProgressMessage.passing (ProjectStats_progress s) = ProjectStats.passing s
   \<and> WSProgressMessage.in_progress (ProjectStats_progress s) = ProjectStats.in_progress s
   \<and> WSProgressMessage.total (ProjectStats_progress s) = ProjectStats.total s
   \<and> WSProgressMessage.percentage (ProjectStats_progress s) = ProjectStats.percentage s"
proof -
  have tag: "type m = Progress"
    by (rule progress_tag_unique)
  have readd: "ProjectStats_progress (WSProgressMessage_stats m) = m"
    by (simp add: ProjectStats_progress_def WSProgressMessage_stats_def tag [symmetric])
  show ?thesis
    using readd tag
    by (simp add: ProjectStats_progress_def WSProgressMessage_stats_def)
qed

section \<open>Theorems about the AgentControl component\<close>

text \<open>
  Claim C7. For each of the four values of \<^verbatim>\<open>AgentStatus\<close> the lookup
  \<^verbatim>\<open>statusConfig[status]\<close> finds an entry, the indicator is rendered from that entry's
  colour, label and pulse flag and no TypeError is thrown, and the entry's pulse flag is
  true exactly for 'running' and 'crashed'.
\<close>

theorem StatusIndicator_total:
  "(\<exists>config. map_of statusConfig (AgentStatus_str st) = Some config
      \<and> StatusIndicator st =
          Inr \<lparr>dot_pulse = pulse config, dot_color = color config,
               label_color = color config, label_text = label config\<rparr>
      \<and> pulse config = (st = Running \<or> st = Crashed))
   \<and> StatusIndicator st \<noteq> Inl TypeError"
  by (cases st) (simp_all add: StatusIndicator_def statusConfig_def)

text \<open>
  Claim C3. In the states 'stopped' and 'crashed' the control panel renders the model
  selector, the YOLO toggle and the Start button; in 'running' the Pause and Stop buttons;
  in 'paused' the Resume and Stop buttons; nothing else in any state. Accordingly the
  mutations the rendered controls can start are start alone, pause and stop, and resume
  and stop.
\<close>

theorem AgentControl_offers_valid_actions:
  "control_buttons (AgentControl props hooks st) =
     (case status props of
        Stopped \<Rightarrow>
          [Select (AgentControlState.model st) models False (\<lambda>v. [SetModel v]),
           Button (lit ''YOLO Mode: Skip testing for rapid prototyping'') False Zap
             [SetYoloEnabled (\<not> yoloEnabled st)],
           Button (if yoloEnabled st then lit ''Start Agent (YOLO Mode)'' else lit ''Start Agent'')
             (AgentControl_isLoading hooks) (if AgentControl_isLoading hooks then Loader2 else Play) (handleStart st)]
      | Crashed \<Rightarrow>
          [Select (AgentControlState.model st) models False (\<lambda>v. [SetModel v]),
           Button (lit ''YOLO Mode: Skip testing for rapid prototyping'') False Zap
             [SetYoloEnabled (\<not> yoloEnabled st)],
           Button (if yoloEnabled st then lit ''Start Agent (YOLO Mode)'' else lit ''Start Agent'')
             (AgentControl_isLoading hooks) (if AgentControl_isLoading hooks then Loader2 else Play) (handleStart st)]
      | Running \<Rightarrow>
          [Button (lit ''Pause Agent'') (AgentControl_isLoading hooks)
             (if AgentControl_isLoading hooks then Loader2 else Pause) handlePause,
           Button (lit ''Stop Agent'') (AgentControl_isLoading hooks) Square handleStop]
      | Paused \<Rightarrow>
          [Button (lit ''Resume Agent'') (AgentControl_isLoading hooks)
             (if AgentControl_isLoading hooks then Loader2 else Play) handleResume,
           Button (lit ''Stop Agent'') (AgentControl_isLoading hooks) Square handleStop])
   \<and> concat (map (\<lambda>c. mutations_of (control_calls v c))
         (control_buttons (AgentControl props hooks st))) =
     (case status props of
        Stopped \<Rightarrow> [StartAgent]
      | Crashed \<Rightarrow> [StartAgent]
      | Running \<Rightarrow> [PauseAgent, StopAgent]
      | Paused \<Rightarrow> [ResumeAgent, StopAgent])"
  by (cases "status props")
     (simp_all add: AgentControl_def Let_def handleStart_def handleStop_def
        handlePause_def handleResume_def)

text \<open>
  Claim C4. \<^verbatim>\<open>handleStart\<close> calls \<^verbatim>\<open>startAgent.mutate\<close> with \<^verbatim>\<open>yoloMode\<close> equal to the
  local toggle \<^verbatim>\<open>yoloEnabled\<close> and \<^verbatim>\<open>model\<close> equal to the locally selected model, also
  right after either has been set, and that is what the rendered Start button does in the
  states 'stopped' and 'crashed', whatever the props say; \<^verbatim>\<open>handleStop\<close>,
  \<^verbatim>\<open>handlePause\<close> and \<^verbatim>\<open>handleResume\<close> call their mutation without an argument.
\<close>

theorem handleStart_passes_local_state:
  "handleStart st =
     [Mutate StartAgent
        (Some \<lparr>start_payload.yoloMode = yoloEnabled st,
               start_payload.model = AgentControlState.model st\<rparr>)]
   \<and> handleStop = [Mutate StopAgent None]
   \<and> handlePause = [Mutate PauseAgent None]
   \<and> handleResume = [Mutate ResumeAgent None]
   \<and> handleStart (AgentControl_set st (SetYoloEnabled b)) =
       [Mutate StartAgent
          (Some \<lparr>start_payload.yoloMode = b,
                 start_payload.model = AgentControlState.model st\<rparr>)]
   \<and> handleStart (AgentControl_set st (SetModel m)) =
       [Mutate StartAgent
          (Some \<lparr>start_payload.yoloMode = yoloEnabled st, start_payload.model = m\<rparr>)]
   \<and> control_calls v (last (control_buttons (AgentControl (props\<lparr>status := Stopped\<rparr>) hooks st))) =
       [Mutate StartAgent
          (Some \<lparr>start_payload.yoloMode = yoloEnabled st,
                 start_payload.model = AgentControlState.model st\<rparr>)]
   \<and> control_calls v (last (control_buttons (AgentControl (props\<lparr>status := Crashed\<rparr>) hooks st))) =
       [Mutate StartAgent
          (Some \<lparr>start_payload.yoloMode = yoloEnabled st,
                 start_payload.model = AgentControlState.model st\<rparr>)]"
  by (simp add: AgentControl_def Let_def handleStart_def handleStop_def
        handlePause_def handleResume_def)

section \<open>Theorems about the SpecCreationChat component\<close>

subsection \<open>Effects over the life of the component\<close>

lemma rerenders_Cons:
  "rerenders [\<lparr>deps = [], body = [Start], cleanup = [Disconnect]\<rparr>, e2, e3]
     (Rerender st changed # rs) =
   (let e2' = (if reruns changed (effects st ! Suc 0) then effects st ! Suc 0 else e2);
        e3' = (if reruns changed (effects st ! 2) then effects st ! 2 else e3);
        rest = rerenders [\<lparr>deps = [], body = [Start], cleanup = [Disconnect]\<rparr>, e2', e3'] rs
    in (fst rest,
        (if reruns changed (effects st ! Suc 0) then cleanup e2 else [])
        @ (if reruns changed (effects st ! 2) then cleanup e3 else [])
        @ (if reruns changed (effects st ! Suc 0) then body (effects st ! Suc 0) else [])
        @ (if reruns changed (effects st ! 2) then body (effects st ! 2) else [])
        @ snd rest))"
  by (simp add: effects_def reruns_def Let_def case_prod_beta)

lemma effects_tail:
  "cleanup (effects st ! Suc 0) = []" "cleanup (effects st ! 2) = []"
  "set (body (effects st ! Suc 0)) \<subseteq> {ScrollIntoView, FocusInput}"
  "set (body (effects st ! 2)) \<subseteq> {ScrollIntoView, FocusInput}"
  by (auto simp add: effects_def)

lemma rerenders_inv:
  "cleanup e2 = [] \<Longrightarrow> cleanup e3 = [] \<Longrightarrow>
   (\<exists>e2' e3'. fst (rerenders [\<lparr>deps = [], body = [Start], cleanup = [Disconnect]\<rparr>, e2, e3] rs)
            = [\<lparr>deps = [], body = [Start], cleanup = [Disconnect]\<rparr>, e2', e3']
          \<and> cleanup e2' = [] \<and> cleanup e3' = [])
   \<and> set (snd (rerenders [\<lparr>deps = [], body = [Start], cleanup = [Disconnect]\<rparr>, e2, e3] rs))
          \<subseteq> {ScrollIntoView, FocusInput}"
proof (induction rs arbitrary: e2 e3)
  case Nil
  then show ?case by simp
next
  case (Cons r rs)
  obtain st changed where r: "r = Rerender st changed"
    by (cases r)
  define e2' where "e2' = (if reruns changed (effects st ! Suc 0) then effects st ! Suc 0 else e2)"
  define e3' where "e3' = (if reruns changed (effects st ! 2) then effects st ! 2 else e3)"
  have c: "cleanup e2' = []" "cleanup e3' = []"
    using Cons.prems by (simp_all add: e2'_def e3'_def effects_tail)
  from Cons.IH [OF c] effects_tail [of st] Cons.prems show ?case
    unfolding r rerenders_Cons e2'_def e3'_def Let_def
    by (auto simp del: rerenders.simps)
qed

lemma lifetime_unmount: "unmount_calls st0 rs = [Disconnect]"
proof -
  have eff: "effects st0 = [\<lparr>deps = [], body = [Start], cleanup = [Disconnect]\<rparr>, effects st0 ! Suc 0, effects st0 ! 2]"
    by (simp add: effects_def)
  from rerenders_inv [OF effects_tail(1,2), of st0 st0 rs]
  obtain e2' e3' where f: "fst (rerenders (effects st0) rs) = [\<lparr>deps = [], body = [Start], cleanup = [Disconnect]\<rparr>, e2', e3']"
     and c: "cleanup e2' = []" "cleanup e3' = []"
    using eff by auto
  show ?thesis
    by (simp add: unmount_calls_def f c)
qed

lemma lifetime_calls:
  "\<exists>mid. lifetime st0 rs = Start # mid @ [Disconnect] \<and> set mid \<subseteq> {ScrollIntoView, FocusInput}"
proof -
  have eff: "effects st0 = [\<lparr>deps = [], body = [Start], cleanup = [Disconnect]\<rparr>, effects st0 ! Suc 0, effects st0 ! 2]"
    by (simp add: effects_def)
  from rerenders_inv [OF effects_tail(1,2), of st0 st0 rs]
  obtain e2' e3' where f: "fst (rerenders (effects st0) rs) = [\<lparr>deps = [], body = [Start], cleanup = [Disconnect]\<rparr>, e2', e3']"
     and c: "cleanup e2' = []" "cleanup e3' = []"
     and m: "set (snd (rerenders (effects st0) rs)) \<subseteq> {ScrollIntoView, FocusInput}"
    using eff by auto
  have mc: "mount_calls st0 = Start # tl (mount_calls st0)" "set (tl (mount_calls st0)) \<subseteq> {ScrollIntoView, FocusInput}"
    by (auto simp add: mount_calls_def effects_def)
  have um: "unmount_calls st0 rs = [Disconnect]"
    by (simp add: unmount_calls_def f c)
  have "lifetime st0 rs = Start # (tl (mount_calls st0) @ snd (rerenders (effects st0) rs)) @ [Disconnect]"
    unfolding lifetime_def um using mc(1) by (metis append_Cons append_assoc)
  moreover have "set (tl (mount_calls st0) @ snd (rerenders (effects st0) rs)) \<subseteq> {ScrollIntoView, FocusInput}"
    using mc(2) m by simp
  ultimately show ?thesis by blast
qed


lemma count_list_others:
  "set mid \<subseteq> {ScrollIntoView, FocusInput} \<Longrightarrow>
   count_list (Start # mid @ [Disconnect]) Start = 1
   \<and> count_list (Start # mid @ [Disconnect]) Disconnect = 1"
proof -
  assume "set mid \<subseteq> {ScrollIntoView, FocusInput}"
  then have "Start \<notin> set mid" "Disconnect \<notin> set mid"
    by auto
  then have "count_list mid Start = 0" "count_list mid Disconnect = 0"
    by (simp_all add: count_list_0_iff)
  then show ?thesis by simp
qed

text \<open>
  Claim C2. Mounting the component calls \<^verbatim>\<open>start\<close> exactly once, and no later render
  calls it again: over the whole life of the component, whatever renders follow the
  mount, the effects call \<^verbatim>\<open>start\<close> once, first of all, and \<^verbatim>\<open>disconnect\<close> once, at
  unmount, from the cleanup of the mount effect. A retry button is rendered exactly when
  \<^verbatim>\<open>connectionStatus\<close> is 'error', there are no messages and \<^verbatim>\<open>isLoading\<close> is false,
  and clicking it calls \<^verbatim>\<open>start\<close>.
\<close>

theorem connection_lifecycle:
  "count_list (mount_calls st0) Start = 1
   \<and> count_list (lifetime st0 rs) Start = 1
   \<and> hd (lifetime st0 rs) = Start
   \<and> unmount_calls st0 rs = [Disconnect]
   \<and> count_list (lifetime st0 rs) Disconnect = 1
   \<and> last (lifetime st0 rs) = Disconnect
   \<and> (\<exists>sc h. starting_card (messages_area (SpecCreationChat st)) = Some sc
          \<and> retry_onClick sc = Some h)
      = (connectionStatus st = lit ''error'' \<and> messages st = [] \<and> \<not> isLoading st)
   \<and> dispatch (SpecCreationChat st) ClickRetry
      = (if connectionStatus st = lit ''error'' \<and> messages st = [] \<and> \<not> isLoading st
         then [Start] else [])"
proof -
  obtain mid where l: "lifetime st0 rs = Start # mid @ [Disconnect]"
    and mid: "set mid \<subseteq> {ScrollIntoView, FocusInput}"
    using lifetime_calls by blast
  have m: "count_list (mount_calls st0) Start = 1"
    by (simp add: mount_calls_def effects_def)
  have u: "unmount_calls st0 rs = [Disconnect]"
    using lifetime_unmount by simp
  have r1: "(\<exists>sc h. starting_card (messages_area (SpecCreationChat st)) = Some sc
          \<and> retry_onClick sc = Some h)
      = (connectionStatus st = lit ''error'' \<and> messages st = [] \<and> \<not> isLoading st)"
    by (simp add: SpecCreationChat_def)
  have r2: "dispatch (SpecCreationChat st) ClickRetry
      = (if connectionStatus st = lit ''error'' \<and> messages st = [] \<and> \<not> isLoading st
         then [Start] else [])"
    by (simp add: SpecCreationChat_def)
  from count_list_others [OF mid] l m u r1 r2 show ?thesis
    by simp
qed

subsection \<open>Sending a message\<close>

text \<open>
  What \<open>trim\<close> returns is a contiguous part of its argument, with only white space
  before and after it, and it neither starts nor ends with white space.
\<close>

lemma trim_split:
  "dropWhile is_white_space s =
     trim s @ rev (takeWhile is_white_space (rev (dropWhile is_white_space s)))"
proof -
  define d where "d = dropWhile is_white_space s"
  define e where "e = dropWhile is_white_space (rev d)"
  have "rev d = takeWhile is_white_space (rev d) @ e"
    by (simp add: e_def)
  then have "rev (rev d) = rev (takeWhile is_white_space (rev d) @ e)"
    by (rule arg_cong)
  then have "d = rev e @ rev (takeWhile is_white_space (rev d))"
    by simp
  then show ?thesis
    by (simp add: trim_def d_def e_def)
qed

lemma trim_decompose:
  "\<exists>pre post. s = pre @ trim s @ post
      \<and> list_all is_white_space pre \<and> list_all is_white_space post"
proof -
  have "s = takeWhile is_white_space s @ dropWhile is_white_space s"
    by simp
  then have s: "s = takeWhile is_white_space s @ trim s
      @ rev (takeWhile is_white_space (rev (dropWhile is_white_space s)))"
    using trim_split [of s] by simp
  have p1: "list_all is_white_space (takeWhile is_white_space s)"
    by (auto simp add: list_all_iff dest: set_takeWhileD)
  have p2: "list_all is_white_space
      (rev (takeWhile is_white_space (rev (dropWhile is_white_space s))))"
    by (auto simp add: list_all_iff dest: set_takeWhileD)
  from s p1 p2 show ?thesis by blast
qed

lemma trim_ends:
  assumes "trim s \<noteq> []"
  shows "\<not> is_white_space (hd (trim s))" and "\<not> is_white_space (last (trim s))"
proof -
  define d where "d = dropWhile is_white_space s"
  define e where "e = dropWhile is_white_space (rev d)"
  have t: "trim s = rev e"
    by (simp add: trim_def d_def e_def)
  with assms have e: "e \<noteq> []" by simp
  then have "\<not> is_white_space (hd e)"
    unfolding e_def by (rule hd_dropWhile)
  then show "\<not> is_white_space (last (trim s))"
    using e by (simp add: t last_rev)
  have dd: "d = trim s @ rev (takeWhile is_white_space (rev d))"
    unfolding d_def by (rule trim_split)
  then have "d \<noteq> []" using assms by auto
  then have "\<not> is_white_space (hd d)"
    unfolding d_def by (rule hd_dropWhile)
  moreover have "hd d = hd (trim s)"
    using dd assms by (metis hd_append2)
  ultimately show "\<not> is_white_space (hd (trim s))"
    by simp
qed

text \<open>
  Claim C9. When the input trims to the empty string or \<^verbatim>\<open>isLoading\<close> is true,
  \<^verbatim>\<open>handleSendMessage\<close> makes no call and the state cells are as before. Otherwise it
  calls \<^verbatim>\<open>sendMessage\<close> with the trimmed input, which has no white space at either
  end, and then sets the input to the empty string. In both cases the trimmed text is
  the input without the white space around it.
\<close>

theorem handleSendMessage_guarded:
  "(trim (input st) = [] \<or> isLoading st \<longrightarrow>
      handleSendMessage st = [] \<and> after st (handleSendMessage st) = st)
   \<and> (\<not> (trim (input st) = [] \<or> isLoading st) \<longrightarrow>
      handleSendMessage st = [SendMessage (trim (input st)), SetInput []]
      \<and> after st (handleSendMessage st) = st\<lparr>input := []\<rparr>
      \<and> \<not> is_white_space (hd (trim (input st)))
      \<and> \<not> is_white_space (last (trim (input st))))
   \<and> (\<exists>pre post. input st = pre @ trim (input st) @ post
         \<and> list_all is_white_space pre \<and> list_all is_white_space post)"
proof -
  have a: "handleSendMessage st = [] \<and> after st (handleSendMessage st) = st"
    if "trim (input st) = [] \<or> isLoading st"
    using that by (auto simp add: handleSendMessage_def after_def)
  have b: "handleSendMessage st = [SendMessage (trim (input st)), SetInput []]
      \<and> after st (handleSendMessage st) = st\<lparr>input := []\<rparr>"
    if "\<not> (trim (input st) = [] \<or> isLoading st)"
    using that by (simp add: handleSendMessage_def after_def)
  from a b trim_ends [of "input st"] trim_decompose [of "input st"] show ?thesis
    by blast
qed

theorem handleSendMessage_guarded_witness:
  "trim (input (chat0\<lparr>input := lit ''   ''\<rparr>)) = []
   \<and> handleSendMessage (chat0\<lparr>input := lit ''   ''\<rparr>) = []
   \<and> isLoading (chat0\<lparr>isLoading := True\<rparr>)
   \<and> handleSendMessage (chat0\<lparr>isLoading := True\<rparr>) = []
   \<and> \<not> (trim (input chat0) = [] \<or> isLoading chat0)
   \<and> handleSendMessage chat0 = [SendMessage (lit ''hi''), SetInput []]
   \<and> input (after chat0 (handleSendMessage chat0)) = []"
proof -
  have t0: "trim (input (chat0\<lparr>input := lit ''   ''\<rparr>)) = []"
    by (simp add: chat0_def trim_def is_white_space_def lit_def)
  have t1: "trim (input chat0) = lit ''hi''"
    by (simp add: chat0_def trim_def is_white_space_def lit_def)
  have l0: "isLoading (chat0\<lparr>isLoading := True\<rparr>)"
    by (simp add: chat0_def)
  have l1: "\<not> (trim (input chat0) = [] \<or> isLoading chat0)"
    by (simp add: t1) (simp add: chat0_def lit_def)
  have w0: "handleSendMessage (chat0\<lparr>input := lit ''   ''\<rparr>) = []"
    using handleSendMessage_guarded [of "chat0\<lparr>input := lit ''   ''\<rparr>"] t0 by blast
  have w1: "handleSendMessage (chat0\<lparr>isLoading := True\<rparr>) = []"
    using handleSendMessage_guarded [of "chat0\<lparr>isLoading := True\<rparr>"] l0 by blast
  have w2: "handleSendMessage chat0 = [SendMessage (trim (input chat0)), SetInput []]
      \<and> after chat0 (handleSendMessage chat0) = chat0\<lparr>input := []\<rparr>"
    using handleSendMessage_guarded [of chat0] l1 by blast
  from w2 have "after chat0 (handleSendMessage chat0) = chat0\<lparr>input := []\<rparr>"
    by (rule conjunct2)
  then have w3: "input (after chat0 (handleSendMessage chat0)) = []"
    by simp
  from t0 l0 l1 w0 w1 w2 w3 show ?thesis
    by (simp only: t1 simp_thms)
qed

subsection \<open>What the rendered tree lets the user do\<close>

lemma dispatch_SendMessage_complete:
  "isComplete st \<Longrightarrow> SendMessage t \<notin> set (dispatch (SpecCreationChat st) ev)"
  by (cases ev) (simp_all add: SpecCreationChat_def handleAnswerSubmit_def split: option.splits)

lemma dispatch_OnComplete:
  "OnComplete p \<in> set (dispatch (SpecCreationChat st) ev) \<Longrightarrow> p = [] \<and> ev = ClickContinue \<and> isComplete st"
  by (cases ev)
     (auto simp add: SpecCreationChat_def handleAnswerSubmit_def handleKeyDown_def
        handleSendMessage_def Let_def split: option.splits if_splits)

lemma dispatch_SendMessage_disabled:
  "connectionStatus st \<noteq> lit ''connected'' \<or> (isLoading st \<and> currentQuestions st = None) \<Longrightarrow>
   SendMessage t \<notin> set (dispatch (SpecCreationChat st) ev)"
  by (cases ev) (auto simp add: SpecCreationChat_def handleAnswerSubmit_def split: option.splits)

text \<open>
  Answers to structured questions take another way: whenever \<^verbatim>\<open>currentQuestions\<close> is a
  non-empty array the question form is rendered and its submission calls
  \<^verbatim>\<open>sendAnswer\<close>; the component passes it \<^verbatim>\<open>isLoading\<close> as \<^verbatim>\<open>disabled\<close> and
  consults neither \<^verbatim>\<open>isComplete\<close> nor \<^verbatim>\<open>connectionStatus\<close> for it. What
  \<^verbatim>\<open>sendAnswer\<close> and \<^verbatim>\<open>sendMessage\<close> do when called is up to the hook.
\<close>

lemma answers_go_through_sendAnswer:
  "currentQuestions st = Some qs \<Longrightarrow> qs \<noteq> [] \<Longrightarrow>
   dispatch (SpecCreationChat st) (SubmitAnswers a) = [SendAnswer a]"
  by (simp add: SpecCreationChat_def handleAnswerSubmit_def)

text \<open>A gesture calls \<^verbatim>\<open>sendAnswer\<close> exactly when it submits a rendered question form.\<close>

lemma dispatch_SendAnswer:
  "(SendAnswer a \<in> set (dispatch (SpecCreationChat st) ev)) =
   (ev = SubmitAnswers a \<and> (\<exists>q qs. currentQuestions st = Some (q # qs)))"
proof (cases ev)
  case (SubmitAnswers b)
  then show ?thesis
    by (cases "currentQuestions st")
       (auto simp add: SpecCreationChat_def handleAnswerSubmit_def neq_Nil_conv)
qed (auto simp add: SpecCreationChat_def handleKeyDown_def handleSendMessage_def Let_def
       split: option.splits if_splits)

text \<open>
  An empty array is truthy: with \<^verbatim>\<open>currentQuestions = []\<close> the test
  \<^verbatim>\<open>!currentQuestions\<close> is false, so a loading, connected session keeps its text input
  enabled although no question form is rendered.
\<close>

lemma empty_questions_array_is_truthy:
  "isLoading st \<Longrightarrow> currentQuestions st = Some [] \<Longrightarrow>
   connectionStatus st = lit ''connected'' \<Longrightarrow> \<not> isComplete st \<Longrightarrow>
   question_options (messages_area (SpecCreationChat st)) = None
   \<and> (\<exists>a. input_area (SpecCreationChat st) = Some a \<and> \<not> input_disabled a)"
  by (simp add: SpecCreationChat_def)

text \<open>
  Claim C5. The completion footer is rendered exactly when \<^verbatim>\<open>isComplete\<close> is true and
  the message input area exactly when it is false. So while \<^verbatim>\<open>isComplete\<close> is true
  no gesture on the rendered tree calls \<^verbatim>\<open>sendMessage\<close>: no free-text message can be
  sent from the input or the send button. While it is false there is no completion
  footer. The question form is not covered by this: in every state, complete or not, a
  gesture calls \<^verbatim>\<open>sendAnswer\<close> exactly when it submits the form of a non-empty
  \<^verbatim>\<open>currentQuestions\<close>.
\<close>

theorem completion_replaces_input:
  "(completion_footer (SpecCreationChat st) \<noteq> None) = isComplete st
   \<and> (input_area (SpecCreationChat st) = None) = isComplete st
   \<and> (isComplete st \<longrightarrow> (\<forall>ev t. SendMessage t \<notin> set (dispatch (SpecCreationChat st) ev)))
   \<and> (\<forall>ev a. (SendAnswer a \<in> set (dispatch (SpecCreationChat st) ev)) =
         (ev = SubmitAnswers a \<and> (\<exists>q qs. currentQuestions st = Some (q # qs))))"
proof -
  have "(completion_footer (SpecCreationChat st) \<noteq> None) = isComplete st"
    by (simp add: SpecCreationChat_def)
  moreover have "(input_area (SpecCreationChat st) = None) = isComplete st"
    by (simp add: SpecCreationChat_def)
  ultimately show ?thesis
    using dispatch_SendMessage_complete dispatch_SendAnswer by blast
qed

theorem completion_replaces_input_witness:
  "isComplete (chat0\<lparr>isComplete := True\<rparr>)
   \<and> completion_footer (SpecCreationChat (chat0\<lparr>isComplete := True\<rparr>)) \<noteq> None
   \<and> input_area (SpecCreationChat (chat0\<lparr>isComplete := True\<rparr>)) = None
   \<and> (\<forall>ev t. SendMessage t \<notin> set (dispatch (SpecCreationChat (chat0\<lparr>isComplete := True\<rparr>)) ev))
   \<and> (\<forall>ev a. SendAnswer a \<notin> set (dispatch (SpecCreationChat (chat0\<lparr>isComplete := True\<rparr>)) ev))"
  using completion_replaces_input [of "chat0\<lparr>isComplete := True\<rparr>"]
  by (simp add: chat0_def)

text \<open>
  That nothing at all can be sent once \<^verbatim>\<open>isComplete\<close> is true does not hold. In a
  complete session that still has a question pending the input area is gone and the
  footer is shown, but the question form is rendered, enabled, and submitting it calls
  \<^verbatim>\<open>sendAnswer\<close>.
\<close>

theorem completion_keeps_question_form:
  "isComplete (chat0\<lparr>isComplete := True, currentQuestions := Some [question0]\<rparr>)
   \<and> input_area
        (SpecCreationChat (chat0\<lparr>isComplete := True, currentQuestions := Some [question0]\<rparr>))
       = None
   \<and> completion_footer
        (SpecCreationChat (chat0\<lparr>isComplete := True, currentQuestions := Some [question0]\<rparr>))
       = Some \<lparr>continue_onClick = [OnComplete []]\<rparr>
   \<and> question_options (messages_area
        (SpecCreationChat (chat0\<lparr>isComplete := True, currentQuestions := Some [question0]\<rparr>)))
       = Some \<lparr>qo_questions = [question0], qo_onSubmit = handleAnswerSubmit,
               qo_disabled = False\<rparr>
   \<and> dispatch
        (SpecCreationChat (chat0\<lparr>isComplete := True, currentQuestions := Some [question0]\<rparr>))
        (SubmitAnswers answers0)
       = [SendAnswer answers0]"
  by (simp add: SpecCreationChat_def chat0_def handleAnswerSubmit_def)

text \<open>
  Claim C8. The spec-complete message has a \<^verbatim>\<open>path\<close> field, but the component never
  hands a path to \<^verbatim>\<open>onComplete\<close>: the "Continue to Project" button of the completion
  footer calls \<^verbatim>\<open>onComplete('')\<close>, and whenever a gesture on the rendered tree calls
  \<^verbatim>\<open>onComplete\<close> its argument is the empty string.
\<close>

theorem continue_passes_empty_path:
  "(isComplete st \<longrightarrow>
      completion_footer (SpecCreationChat st) = Some \<lparr>continue_onClick = [OnComplete []]\<rparr>
      \<and> dispatch (SpecCreationChat st) ClickContinue = [OnComplete []])
   \<and> (OnComplete p \<in> set (dispatch (SpecCreationChat st) ev) \<longrightarrow> p = [])
   \<and> msg_path (SpecChatCompleteMessage path) = Some path"
  using dispatch_OnComplete [of p st ev] by (simp add: SpecCreationChat_def)

theorem continue_passes_empty_path_witness:
  "isComplete (chat0\<lparr>isComplete := True\<rparr>)
   \<and> dispatch (SpecCreationChat (chat0\<lparr>isComplete := True\<rparr>)) ClickContinue = [OnComplete []]
   \<and> OnComplete [] \<in> set (dispatch (SpecCreationChat (chat0\<lparr>isComplete := True\<rparr>)) ClickContinue)
   \<and> msg_path (SpecChatCompleteMessage (lit ''prompts/app_spec.txt'')) = Some (lit ''prompts/app_spec.txt'')"
  using continue_passes_empty_path [of "chat0\<lparr>isComplete := True\<rparr>" "[]" ClickContinue "lit ''prompts/app_spec.txt''"]
  by (simp add: chat0_def)

text \<open>
  Claim C10. Whenever \<^verbatim>\<open>connectionStatus\<close> is not 'connected', and also whenever
  \<^verbatim>\<open>isLoading\<close> is true while \<^verbatim>\<open>currentQuestions\<close> is \<^verbatim>\<open>null\<close>, the text input and
  the send button are both disabled if they are rendered at all (they are not once the
  session is complete), so no gesture on the rendered tree calls \<^verbatim>\<open>sendMessage\<close>: no
  free-text message can be submitted. The question form is not covered by this: in every
  state, connected or not, a gesture calls \<^verbatim>\<open>sendAnswer\<close> exactly when it submits the
  form of a non-empty \<^verbatim>\<open>currentQuestions\<close>.
\<close>

theorem no_send_unless_connected:
  assumes "connectionStatus st \<noteq> lit ''connected'' \<or> (isLoading st \<and> currentQuestions st = None)"
  shows "(case input_area (SpecCreationChat st) of
            None \<Rightarrow> isComplete st
          | Some a \<Rightarrow> \<not> isComplete st \<and> input_disabled a \<and> send_disabled a)
         \<and> SendMessage t \<notin> set (dispatch (SpecCreationChat st) ev)
         \<and> (SendAnswer a \<in> set (dispatch (SpecCreationChat st) ev)) =
             (ev = SubmitAnswers a \<and> (\<exists>q qs. currentQuestions st = Some (q # qs)))"
proof -
  have "case input_area (SpecCreationChat st) of
            None \<Rightarrow> isComplete st
          | Some a \<Rightarrow> \<not> isComplete st \<and> input_disabled a \<and> send_disabled a"
    using assms by (auto simp add: SpecCreationChat_def)
  then show ?thesis
    using dispatch_SendMessage_disabled [OF assms] dispatch_SendAnswer [of a st ev] by simp
qed

theorem no_send_unless_connected_witness:
  "connectionStatus (chat0\<lparr>connectionStatus := lit ''connecting''\<rparr>) \<noteq> lit ''connected''
   \<and> (\<exists>a. input_area (SpecCreationChat (chat0\<lparr>connectionStatus := lit ''connecting''\<rparr>)) = Some a
         \<and> input_disabled a \<and> send_disabled a)
   \<and> dispatch (SpecCreationChat (chat0\<lparr>connectionStatus := lit ''connecting''\<rparr>)) ClickSend = []
   \<and> SendMessage (lit ''hi'') \<notin> set (dispatch (SpecCreationChat (chat0\<lparr>connectionStatus := lit ''connecting''\<rparr>)) ClickSend)"
proof -
  have h: "connectionStatus (chat0\<lparr>connectionStatus := lit ''connecting''\<rparr>) \<noteq> lit ''connected''"
    by (simp add: chat0_def lit_def)
  from no_send_unless_connected [OF disjI1 [OF h], of "lit ''hi''" ClickSend answers0] h
  show ?thesis
    by (auto simp add: SpecCreationChat_def chat0_def split: option.splits)
qed

text \<open>
  That nothing at all can be submitted while the connection is not established does not
  hold, and neither does it that the input is disabled whenever \<^verbatim>\<open>isLoading\<close> is true
  and no question is rendered. In a session whose connection has failed and that has a
  question pending, the question form is rendered, enabled, and submitting it calls
  \<^verbatim>\<open>sendAnswer\<close>. In a loading, connected session whose \<^verbatim>\<open>currentQuestions\<close> is the
  empty array, no question form is rendered and yet neither the text input nor the send
  button is disabled.
\<close>

theorem question_form_ignores_connection:
  "connectionStatus (chat0\<lparr>connectionStatus := lit ''error'', currentQuestions := Some [question0]\<rparr>)
       \<noteq> lit ''connected''
   \<and> question_options (messages_area
        (SpecCreationChat
           (chat0\<lparr>connectionStatus := lit ''error'', currentQuestions := Some [question0]\<rparr>)))
       = Some \<lparr>qo_questions = [question0], qo_onSubmit = handleAnswerSubmit,
               qo_disabled = False\<rparr>
   \<and> dispatch
        (SpecCreationChat
           (chat0\<lparr>connectionStatus := lit ''error'', currentQuestions := Some [question0]\<rparr>))
        (SubmitAnswers answers0)
       = [SendAnswer answers0]
   \<and> isLoading (chat0\<lparr>isLoading := True, currentQuestions := Some []\<rparr>)
   \<and> question_options (messages_area
        (SpecCreationChat (chat0\<lparr>isLoading := True, currentQuestions := Some []\<rparr>)))
       = None
   \<and> map_option input_disabled
        (input_area (SpecCreationChat (chat0\<lparr>isLoading := True, currentQuestions := Some []\<rparr>)))
       = Some False
   \<and> map_option send_disabled
        (input_area (SpecCreationChat (chat0\<lparr>isLoading := True, currentQuestions := Some []\<rparr>)))
       = Some False"
proof -
  have t: "trim (lit '' hi '') = lit ''hi''"
    by (simp add: trim_def is_white_space_def lit_def)
  have n: "lit ''hi'' \<noteq> []" "lit ''error'' \<noteq> lit ''connected''"
    by (simp_all add: lit_def)
  show ?thesis
    by (simp add: SpecCreationChat_def chat0_def handleAnswerSubmit_def t n)
qed

end
